theory Spec2Isabelle
  imports Complex_Main
begin

section \<open>IC50 determination on synthetic dose-response data\<close>

text \<open>
  The notebook \<^verbatim>\<open>incubator/IC50_synthetic-bayesian.ipynb\<close> is a linear script: it
  generates dose-response data for three drugs, assembles a table of observations,
  encodes the drug labels as dense indices, declares a PyMC3 model and samples from it.
  Each cell is embedded below as a HOL function of the values the cell reads.

  Floating-point arrays are embedded over \<^typ>\<open>real\<close>: the definitions give the
  formulas the cells compute, not their rounding. Integer arrays are \<^typ>\<open>int\<close> lists;
  the subtraction on 64-bit arrays and the narrowing cast to 32 bits are written out
  with their wrap-around.
  A two-dimensional array is a list of rows. Variables that no later cell reads
  (\<^verbatim>\<open>log_xconcs\<close>, \<^verbatim>\<open>slope_true\<close>, \<^verbatim>\<open>intercept_true\<close>) and the plotting cells are left out.
\<close>

subsection \<open>Errors raised by the libraries the cells call\<close>

datatype error = ValueError | IndexError

subsection \<open>Synthetic data generator\<close>

text \<open>
  \<^verbatim>\<open>np.arange(start, stop, step)\<close> on integers, for a positive step (the only kind the
  notebook uses): the values \<open>start + i * step\<close> below \<open>stop\<close>.
\<close>

definition arange :: "int \<Rightarrow> int \<Rightarrow> int \<Rightarrow> int list" where
  "arange start stop step =
     map (\<lambda>i. start + int i * step) [0..<nat ((stop - start + step - 1) div step)]"

text \<open>
  \<^verbatim>\<open>x_concs = np.concatenate([np.arange(0, 100, 10), np.arange(5, 21, 1),
      np.arange(40, 51, 1), np.arange(85, 96, 1)]).reshape(-1, 1)\<close>:
  a column vector, embedded as the list of its entries.
\<close>

definition x_concs :: "int list" where
  "x_concs = concat [arange 0 100 10, arange 5 21 1, arange 40 51 1, arange 85 96 1]"

text \<open>\<^verbatim>\<open>ic50_true = np.array([42, 13, 88])\<close>, reshaped to one row.\<close>

definition ic50_true :: "int list" where
  "ic50_true = [42, 13, 88]"

definition beta_true :: int where
  "beta_true = 1"

text \<open>
  The integer arrays hold 64-bit signed integers: the values from \<open>- 2\<^sup>6\<^sup>3\<close> up to
  \<open>2\<^sup>6\<^sup>3 - 1\<close>. Arithmetic on them wraps around modulo \<open>2\<^sup>6\<^sup>4\<close>.
\<close>

definition in_int64 :: "int \<Rightarrow> bool" where
  "in_int64 i \<longleftrightarrow> - (2 ^ 63) \<le> i \<and> i < 2 ^ 63"

definition int64 :: "int \<Rightarrow> int" where
  "int64 i = (i + 2 ^ 63) mod 2 ^ 64 - 2 ^ 63"

text \<open>
  \<^verbatim>\<open>y_true = beta_true / (1 + np.exp(x_concs - ic50_true))\<close>: the column \<open>xs\<close> of shape
  \<open>(n, 1)\<close> and the row \<open>ts\<close> of shape \<open>(1, k)\<close> broadcast to an \<open>n\<close> by \<open>k\<close> matrix. The
  subtraction is on 64-bit integer arrays; \<^verbatim>\<open>np.exp\<close> converts to floating point.
\<close>

definition y_true :: "int list \<Rightarrow> int list \<Rightarrow> real list list" where
  "y_true xs ts =
     map (\<lambda>c. map (\<lambda>t. real_of_int beta_true / (1 + exp (real_of_int (int64 (c - t))))) ts) xs"

text \<open>
  \<^verbatim>\<open>np.random.normal(loc, scale, size=(n, k))\<close>. The generator is the library's; it is
  taken as the matrix \<open>z\<close> of standard normal variates it draws, one per cell, which the
  call shifts by \<open>loc\<close> and scales by \<open>scale\<close>.
\<close>

definition random_normal :: "real \<Rightarrow> real \<Rightarrow> nat \<times> nat \<Rightarrow> (nat \<Rightarrow> nat \<Rightarrow> real) \<Rightarrow> real list list" where
  "random_normal loc scale shp z =
     map (\<lambda>j. map (\<lambda>g. loc + scale * z j g) [0..<snd shp]) [0..<fst shp]"

text \<open>
  \<^verbatim>\<open>y_noisy = y_true + np.random.normal(0, 0.15, size=y_true.shape)\<close>, an elementwise sum.
  \<^verbatim>\<open>y_true.shape\<close> is \<open>(n, k)\<close> for a grid of \<open>n\<close> points and \<open>k\<close> drugs.
\<close>

definition y_noisy :: "int list \<Rightarrow> int list \<Rightarrow> (nat \<Rightarrow> nat \<Rightarrow> real) \<Rightarrow> real list list" where
  "y_noisy xs ts z =
     map2 (map2 (+)) (y_true xs ts) (random_normal 0 0.15 (length xs, length ts) z)"

subsection \<open>Assembling the table of observations\<close>

text \<open>
  \<^verbatim>\<open>concentrations = np.concatenate([x_concs] * ic50_true.shape[1])\<close>: the grid repeated
  once per drug. \<^verbatim>\<open>np.concatenate\<close> of an empty list of arrays raises \<^verbatim>\<open>ValueError\<close>.
\<close>

definition concentrations_np :: "int list \<Rightarrow> int list \<Rightarrow> error + int list" where
  "concentrations_np xs ts =
     (if length ts = 0 then Inl ValueError else Inr (concat (replicate (length ts) xs)))"

text \<open>
  \<^verbatim>\<open>m.flatten(order="F")\<close> of a matrix of shape \<open>(n, k)\<close>: column after column.
\<close>

definition flatten_F :: "nat \<times> nat \<Rightarrow> 'a list list \<Rightarrow> 'a list" where
  "flatten_F shp m = concat (map (\<lambda>g. map (\<lambda>j. m ! j ! g) [0..<fst shp]) [0..<snd shp])"

text \<open>
  \<^verbatim>\<open>
  drugs = []
  for i in range(ic50_true.shape[1]):
      drugs.extend([i] * x_concs.shape[0])
  \<close>
  The loop runs over the list \<open>range(k)\<close>, extending the accumulator.
\<close>

fun drugs_loop :: "nat list \<Rightarrow> nat \<Rightarrow> nat list \<Rightarrow> nat list" where
  "drugs_loop [] n drugs = drugs"
| "drugs_loop (i # rest) n drugs = drugs_loop rest n (drugs @ replicate n i)"

definition drugs :: "int list \<Rightarrow> int list \<Rightarrow> nat list" where
  "drugs xs ts = drugs_loop [0..<length ts] (length xs) []"

text \<open>
  The table \<^verbatim>\<open>data\<close> is a \<^verbatim>\<open>pandas.DataFrame\<close>: columns of one common length. It is
  embedded as the list of its rows. The three columns the cell assigns have the same
  length, the number of grid points times the number of drugs (lemma \<open>data_columns\<close>
  below), so every assignment agrees with the index of the frame and row \<open>r\<close> of the
  frame holds entry \<open>r\<close> of each column. \<^verbatim>\<open>pm.floatX\<close> converts every column to
  floating point.
\<close>

record obs =
  concentrations :: real
  measurements :: real
  drug :: real

definition data :: "int list \<Rightarrow> int list \<Rightarrow> (nat \<Rightarrow> nat \<Rightarrow> real) \<Rightarrow> error + obs list" where
  "data xs ts z =
     (case concentrations_np xs ts of
        Inl e \<Rightarrow> Inl e
      | Inr cs \<Rightarrow>
          Inr (map (\<lambda>(c, m, d). \<lparr>concentrations = real_of_int c, measurements = m, drug = real d\<rparr>)
                 (zip cs (zip (flatten_F (length xs, length ts) (y_noisy xs ts z)) (drugs xs ts)))))"

subsection \<open>Label encoding\<close>

text \<open>
  \<^verbatim>\<open>LabelEncoder().fit_transform(y)\<close>: the classes are the sorted distinct labels
  (\<^verbatim>\<open>np.unique\<close>), and every label is replaced by its position among the classes.
\<close>

definition classes :: "'a::linorder list \<Rightarrow> 'a list" where
  "classes ys = sort (remdups ys)"

fun index_of :: "'a list \<Rightarrow> 'a \<Rightarrow> nat" where
  "index_of [] y = 0"
| "index_of (c # cs) y = (if c = y then 0 else Suc (index_of cs y))"

definition fit_transform :: "'a::linorder list \<Rightarrow> int list" where
  "fit_transform ys = map (\<lambda>y. int (index_of (classes ys) y)) ys"

text \<open>\<^verbatim>\<open>.astype("int32")\<close>: the value modulo \<open>2 ^ 32\<close>, read as a signed number.\<close>

definition astype_int32 :: "int \<Rightarrow> int" where
  "astype_int32 i = (i + 2 ^ 31) mod 2 ^ 32 - 2 ^ 31"

record data_row = obs +
  idxs :: int

text \<open>
  \<^verbatim>\<open>data["idxs"] = le.fit_transform(data["drug"]).astype("int32")\<close>
\<close>

definition encode :: "obs list \<Rightarrow> data_row list" where
  "encode d =
     map2 (\<lambda>r i. \<lparr>concentrations = concentrations r, measurements = measurements r,
                   drug = drug r, idxs = astype_int32 i\<rparr>)
       d (fit_transform (map drug d))"

subsection \<open>Model declaration\<close>

text \<open>
  A prior is a named random vector: a distribution with fixed hyperparameters and a
  shape. \<^verbatim>\<open>pm.Normal(name, mu, sd, shape)\<close> has the keyword default \<open>mu = 0\<close>.
\<close>

datatype dist = Normal real real | HalfCauchy real

record free_rv =
  rv_name :: string
  rv_dist :: dist
  rv_shape :: nat

definition pm_Normal :: "string \<Rightarrow> real option \<Rightarrow> real \<Rightarrow> nat \<Rightarrow> free_rv" where
  "pm_Normal name mu sd shp =
     \<lparr>rv_name = name, rv_dist = Normal (case mu of None \<Rightarrow> 0 | Some m \<Rightarrow> m) sd, rv_shape = shp\<rparr>"

definition pm_HalfCauchy :: "string \<Rightarrow> real \<Rightarrow> nat \<Rightarrow> free_rv" where
  "pm_HalfCauchy name b shp = \<lparr>rv_name = name, rv_dist = HalfCauchy b, rv_shape = shp\<rparr>"

text \<open>A point of the parameter space: one value per component of each random vector.\<close>

record params =
  beta :: "real list"
  noise :: "real list"
  IC50 :: "real list"

text \<open>
  \<^verbatim>\<open>v[i]\<close> for an integer \<open>i\<close>: a negative index counts from the end, an index out of
  range raises \<^verbatim>\<open>IndexError\<close>. \<^verbatim>\<open>v[idxs]\<close> for an integer array looks every index up.
\<close>

definition in_bounds :: "nat \<Rightarrow> int \<Rightarrow> bool" where
  "in_bounds n i \<longleftrightarrow> - int n \<le> i \<and> i < int n"

definition getitem :: "'a list \<Rightarrow> int \<Rightarrow> error + 'a" where
  "getitem v i =
     (if in_bounds (length v) i
      then Inr (v ! nat (if i < 0 then int (length v) + i else i))
      else Inl IndexError)"

fun take_idxs :: "'a list \<Rightarrow> int list \<Rightarrow> error + 'a list" where
  "take_idxs v [] = Inr []"
| "take_idxs v (i # rest) =
     (case getitem v i of
        Inl e \<Rightarrow> Inl e
      | Inr x \<Rightarrow> (case take_idxs v rest of Inl e \<Rightarrow> Inl e | Inr xs \<Rightarrow> Inr (x # xs)))"

text \<open>\<^verbatim>\<open>datasize = len(set(data["idxs"]))\<close>: the number of distinct indices.\<close>

definition datasize :: "data_row list \<Rightarrow> nat" where
  "datasize d = length (remdups (map idxs d))"

text \<open>
  \<^verbatim>\<open>
  measurements = pm.Deterministic("measurements",
      beta[data["idxs"].values]
      / (1 + tt.exp(data["concentrations"].values - ic50[data["idxs"].values])))
  \<close>
  as a function of the point at which the graph is evaluated.
\<close>

definition measurements_det :: "data_row list \<Rightarrow> params \<Rightarrow> error + real list" where
  "measurements_det d \<theta> =
     (case take_idxs (beta \<theta>) (map idxs d) of
        Inl e \<Rightarrow> Inl e
      | Inr bs \<Rightarrow>
          (case take_idxs (IC50 \<theta>) (map idxs d) of
             Inl e \<Rightarrow> Inl e
           | Inr cs \<Rightarrow>
               Inr (map (\<lambda>(b, x, c). b / (1 + exp (x - c)))
                      (zip bs (zip (map concentrations d) cs)))))"

text \<open>
  \<^verbatim>\<open>
  y_like = pm.Normal("y_like", mu=measurements, sd=noise[data["idxs"].values],
                     observed=data["measurements"])
  \<close>
  A vector-valued \<^verbatim>\<open>pm.Normal\<close> is one normal distribution per component. The result
  pairs the distribution of each observation with its observed value.
\<close>

definition y_like :: "data_row list \<Rightarrow> params \<Rightarrow> error + (dist \<times> real) list" where
  "y_like d \<theta> =
     (case measurements_det d \<theta> of
        Inl e \<Rightarrow> Inl e
      | Inr mus \<Rightarrow>
          (case take_idxs (noise \<theta>) (map idxs d) of
             Inl e \<Rightarrow> Inl e
           | Inr sds \<Rightarrow>
               Inr (map (\<lambda>(mu, sd, y). (Normal mu sd, y))
                      (zip mus (zip sds (map measurements d))))))"

text \<open>
  The \<^verbatim>\<open>with pm.Model() as model:\<close> block. PyMC3 rejects a distribution of shape 0:
  on a table without rows \<open>datasize\<close> is 0 and the first prior,
  \<^verbatim>\<open>pm.Normal("beta", mu=0, sd=100 ** 2, shape=0)\<close>, raises \<^verbatim>\<open>ValueError\<close>. PyMC3
  evaluates every node on test values when it is declared, so an index outside a
  vector of shape \<open>datasize\<close> raises \<^verbatim>\<open>IndexError\<close> in the block itself. The cell
  itself contains no check.
\<close>

record model =
  free_RVs :: "free_rv list"
  deterministics :: "params \<Rightarrow> error + real list"
  observed_RVs :: "params \<Rightarrow> error + (dist \<times> real) list"

definition declare_model :: "data_row list \<Rightarrow> error + model" where
  "declare_model d =
     (let beta_rv = pm_Normal ''beta'' (Some 0) (100 ^ 2) (datasize d);
          noise_rv = pm_HalfCauchy ''noise'' (100 ^ 2) (datasize d);
          ic50_rv = pm_Normal ''IC50'' None (100 ^ 2) (datasize d)
      in if datasize d = 0 then Inl ValueError
         else if list_all (in_bounds (datasize d)) (map idxs d)
         then Inr \<lparr>free_RVs = [beta_rv, noise_rv, ic50_rv],
                    deterministics = measurements_det d,
                    observed_RVs = y_like d\<rparr>
         else Inl IndexError)"

subsection \<open>Inference and summaries\<close>

text \<open>
  \<^verbatim>\<open>trace = pm.sample(draws=10000, step=pm.Metropolis(), start=pm.find_MAP())\<close>.
  The sampler and the search for the maximum a posteriori point are PyMC3's; they are
  parameters here. A trace is the list of the points drawn. The step methods are the two
  the cell names: the one it passes and the one of its commented-out alternative.
\<close>

datatype step_method = Metropolis | NUTS

record sample_call =
  draws :: nat
  step :: step_method
  start :: params

definition trace ::
  "(sample_call \<Rightarrow> model \<Rightarrow> params list) \<Rightarrow> (model \<Rightarrow> params) \<Rightarrow> model \<Rightarrow> params list" where
  "trace pm_sample pm_find_MAP m =
     pm_sample \<lparr>draws = 10000, step = Metropolis, start = pm_find_MAP m\<rparr> m"

text \<open>
  \<^verbatim>\<open>pm.traceplot(trace[5000:])\<close> and \<^verbatim>\<open>pm.summary(trace[5000:])\<close>: the slice
  \<^verbatim>\<open>t[5000:]\<close> drops the first 5000 draws (all of them when there are fewer).
\<close>

definition traceplot_cell :: "(params list \<Rightarrow> 'plot) \<Rightarrow> params list \<Rightarrow> 'plot" where
  "traceplot_cell pm_traceplot t = pm_traceplot (drop 5000 t)"

definition summary_cell :: "(params list \<Rightarrow> 'table) \<Rightarrow> params list \<Rightarrow> 'table" where
  "summary_cell pm_summary t = pm_summary (drop 5000 t)"

section \<open>Properties\<close>

subsection \<open>The generator and the table\<close>

lemma length_arange: "length (arange a b s) = nat ((b - a + s - 1) div s)"
  by (simp add: arange_def)

lemma length_x_concs: "length x_concs = 48"
  by (simp add: x_concs_def length_arange)

lemma int64_id: "- (2 ^ 63) \<le> i \<Longrightarrow> i < 2 ^ 63 \<Longrightarrow> int64 i = i"
proof -
  assume a: "- (2 ^ 63) \<le> i" "i < 2 ^ 63"
  have "0 \<le> i + 2 ^ 63" "i + 2 ^ 63 < (2 ^ 64 :: int)" using a by simp_all
  then have "(i + 2 ^ 63) mod 2 ^ 64 = i + 2 ^ 63" by (rule mod_pos_pos_trivial)
  then show ?thesis by (simp only: int64_def)
qed

lemma int64_0: "int64 0 = 0"
  by (rule int64_id) simp_all

lemma int64_7: "int64 7 = 7"
  by (rule int64_id) simp_all

lemma y_true_nth:
  "j < length xs \<Longrightarrow> g < length ts \<Longrightarrow>
   y_true xs ts ! j ! g =
     real_of_int beta_true / (1 + exp (real_of_int (int64 (xs ! j - ts ! g))))"
  by (simp add: y_true_def)

lemma y_noisy_nth:
  "j < length xs \<Longrightarrow> g < length ts \<Longrightarrow>
   y_noisy xs ts z ! j ! g = y_true xs ts ! j ! g + (0 + 0.15 * z j g)"
  by (simp add: y_noisy_def y_true_def random_normal_def)

lemma drugs_loop_eq: "drugs_loop is n acc = acc @ concat (map (replicate n) is)"
  by (induction "is" n acc rule: drugs_loop.induct) simp_all

lemma length_concat_blocks:
  "(\<And>g. g < k \<Longrightarrow> length (f g) = n) \<Longrightarrow> length (concat (map f [0..<k])) = k * n"
  by (induction k) simp_all

lemma block_index_less: "g < k \<Longrightarrow> j < n \<Longrightarrow> g * n + j < k * (n::nat)"
proof -
  assume "g < k" "j < n"
  then have "g * n + j < Suc g * n" by simp
  also have "\<dots> \<le> k * n" using \<open>g < k\<close> by (intro mult_le_mono1) simp
  finally show ?thesis .
qed

lemma nth_concat_blocks:
  "(\<And>g. g < k \<Longrightarrow> length (f g) = n) \<Longrightarrow> g < k \<Longrightarrow> j < n \<Longrightarrow>
   concat (map f [0..<k]) ! (g * n + j) = f g ! j"
proof (induction k)
  case 0
  then show ?case by simp
next
  case (Suc k)
  have len: "length (concat (map f [0..<k])) = k * n"
    using Suc.prems(1) by (intro length_concat_blocks) simp
  show ?case
  proof (cases "g < k")
    case True
    then have "g * n + j < k * n" using Suc.prems(3) by (rule block_index_less)
    then show ?thesis using Suc.IH [OF _ True Suc.prems(3)] Suc.prems(1) len
      by (simp add: nth_append)
  next
    case False
    then have "g = k" using Suc.prems(2) by simp
    then show ?thesis using len by (simp add: nth_append)
  qed
qed

lemma data_columns:
  "length (concat (replicate (length ts) xs)) = length ts * length xs \<and>
   length (flatten_F (length xs, length ts) m) = length ts * length xs \<and>
   length (drugs xs ts) = length ts * length xs"
proof -
  have "length (concat (map (\<lambda>g. xs) [0..<length ts])) = length ts * length xs"
    by (rule length_concat_blocks) simp
  moreover have "length (concat (map (\<lambda>g. map (\<lambda>j. m ! j ! g) [0..<length xs]) [0..<length ts]))
                   = length ts * length xs"
    by (rule length_concat_blocks) simp
  moreover have "length (concat (map (replicate (length xs)) [0..<length ts]))
                   = length ts * length xs"
    by (rule length_concat_blocks) simp
  ultimately show ?thesis
    by (simp add: flatten_F_def drugs_def drugs_loop_eq map_replicate_trivial)
qed

lemma data_rows:
  assumes "ts \<noteq> []"
  shows "\<exists>rows. data xs ts z = Inr rows \<and> length rows = length xs * length ts \<and>
           (\<forall>g<length ts. \<forall>j<length xs.
              rows ! (g * length xs + j) =
                \<lparr>concentrations = real_of_int (xs ! j),
                 measurements = y_noisy xs ts z ! j ! g,
                 drug = real g\<rparr>)"
proof -
  let ?n = "length xs" and ?k = "length ts"
  let ?cs = "concat (map (\<lambda>g. xs) [0..<?k])"
  let ?ms = "concat (map (\<lambda>g. map (\<lambda>j. y_noisy xs ts z ! j ! g) [0..<?n]) [0..<?k])"
  let ?ds = "concat (map (replicate ?n) [0..<?k])"
  have cs: "concentrations_np xs ts = Inr ?cs"
    using assms by (simp add: concentrations_np_def map_replicate_trivial)
  have ms: "flatten_F (?n, ?k) (y_noisy xs ts z) = ?ms"
    by (simp add: flatten_F_def)
  have ds: "drugs xs ts = ?ds"
    by (simp add: drugs_def drugs_loop_eq)
  have lc: "length ?cs = ?k * ?n" by (rule length_concat_blocks) simp
  have lm: "length ?ms = ?k * ?n" by (rule length_concat_blocks) simp
  have ld: "length ?ds = ?k * ?n" by (rule length_concat_blocks) simp
  let ?rows = "map (\<lambda>(c, m, d). \<lparr>concentrations = real_of_int c, measurements = m, drug = real d\<rparr>)
                  (zip ?cs (zip ?ms ?ds))"
  have d: "data xs ts z = Inr ?rows"
    unfolding data_def cs ms ds by simp
  have len: "length ?rows = ?n * ?k" by (simp add: lc lm ld mult.commute)
  have nth: "?rows ! (g * ?n + j) =
                \<lparr>concentrations = real_of_int (xs ! j),
                 measurements = y_noisy xs ts z ! j ! g,
                 drug = real g\<rparr>" if g: "g < ?k" and j: "j < ?n" for g j
  proof -
    have r: "g * ?n + j < ?k * ?n" using g j by (rule block_index_less)
    have c: "?cs ! (g * ?n + j) = xs ! j" using g j by (intro nth_concat_blocks) simp_all
    have m: "?ms ! (g * ?n + j) = y_noisy xs ts z ! j ! g"
      using g j by (subst nth_concat_blocks) simp_all
    have dd: "?ds ! (g * ?n + j) = g"
      using g j by (subst nth_concat_blocks) simp_all
    show ?thesis using r by (simp add: lc lm ld c m dd)
  qed
  show ?thesis using d len nth by blast
qed

lemma block_index_inj:
  assumes "j < n" "j' < n" "g * n + j = g' * n + (j'::nat)"
  shows "g = g' \<and> j = j'"
proof -
  have "(g * n + j) div n = (g' * n + j') div n" using assms(3) by simp
  then have "g = g'" using assms(1,2) by simp
  then show ?thesis using assms(3) by simp
qed

lemma x_concs_0: "x_concs ! 0 = 0"
  by (simp add: x_concs_def arange_def nth_append)

lemma x_concs_2: "x_concs ! 2 = 20"
  by (simp add: x_concs_def arange_def nth_append)

lemma x_concs_28: "x_concs ! 28 = 42"
  by (simp add: x_concs_def arange_def nth_append)

subsection \<open>The label encoder\<close>

lemma set_classes: "set (classes ys) = set ys"
  by (simp add: classes_def)

lemma distinct_classes: "distinct (classes ys)"
  by (simp add: classes_def)

lemma index_of_less: "y \<in> set cs \<Longrightarrow> index_of cs y < length cs"
  by (induction cs) auto

lemma index_of_nth: "distinct cs \<Longrightarrow> c < length cs \<Longrightarrow> index_of cs (cs ! c) = c"
proof (induction cs arbitrary: c)
  case Nil
  then show ?case by simp
next
  case (Cons a cs)
  show ?case
  proof (cases c)
    case 0
    then show ?thesis by simp
  next
    case (Suc c')
    then have "cs ! c' \<in> set cs" using Cons.prems(2) by simp
    then have "a \<noteq> cs ! c'" using Cons.prems(1) by auto
    then show ?thesis using Suc Cons by simp
  qed
qed

lemma set_fit_transform: "set (fit_transform ys) = int ` {0..<length (classes ys)}"
proof (intro equalityI subsetI)
  fix i assume "i \<in> set (fit_transform ys)"
  then obtain y where y: "y \<in> set ys" and i: "i = int (index_of (classes ys) y)"
    by (auto simp: fit_transform_def)
  from y have "index_of (classes ys) y < length (classes ys)"
    by (intro index_of_less) (simp add: set_classes)
  with i show "i \<in> int ` {0..<length (classes ys)}" by simp
next
  fix i assume "i \<in> int ` {0..<length (classes ys)}"
  then obtain c where c: "c < length (classes ys)" and i: "i = int c" by auto
  from c have "classes ys ! c \<in> set ys" using set_classes nth_mem by blast
  moreover have "index_of (classes ys) (classes ys ! c) = c"
    using distinct_classes c by (rule index_of_nth)
  ultimately show "i \<in> set (fit_transform ys)"
    unfolding fit_transform_def i by force
qed

lemma astype_int32_id: "- (2 ^ 31) \<le> i \<Longrightarrow> i < 2 ^ 31 \<Longrightarrow> astype_int32 i = i"
proof -
  assume a: "- (2 ^ 31) \<le> i" "i < 2 ^ 31"
  have "0 \<le> i + 2 ^ 31" "i + 2 ^ 31 < (2 ^ 32 :: int)" using a by simp_all
  then have "(i + 2 ^ 31) mod 2 ^ 32 = i + 2 ^ 31" by (rule mod_pos_pos_trivial)
  then show ?thesis by (simp only: astype_int32_def)
qed

lemma length_fit_transform: "length (fit_transform ys) = length ys"
  by (simp add: fit_transform_def)

lemma idxs_encode: "map idxs (encode d) = map astype_int32 (fit_transform (map drug d))"
  by (rule nth_equalityI) (simp_all add: encode_def length_fit_transform)


lemma fit_transform_range:
  "i \<in> set (fit_transform ys) \<Longrightarrow> 0 \<le> i \<and> i < int (length (classes ys))"
  by (auto simp: set_fit_transform)

lemma datasize_encode:
  assumes "length (classes (map drug d)) \<le> 2 ^ 31"
  shows "datasize (encode d) = length (classes (map drug d))"
proof -
  let ?k = "length (classes (map drug d))"
  let ?is = "fit_transform (map drug d)"
  have "map astype_int32 ?is = ?is"
  proof (rule map_idI)
    fix i assume "i \<in> set ?is"
    then have "0 \<le> i" "i < int ?k" using fit_transform_range by blast+
    moreover have "int ?k \<le> 2 ^ 31"
    proof -
      have "int ?k \<le> int (2 ^ 31)" using assms by (simp only: of_nat_le_iff)
      then show ?thesis by simp
    qed
    ultimately show "astype_int32 i = i" by (intro astype_int32_id) simp_all
  qed
  then have "datasize (encode d) = card (set ?is)"
    by (simp add: datasize_def idxs_encode length_remdups_card_conv)
  also have "\<dots> = ?k"
    by (simp add: set_fit_transform card_image)
  finally show ?thesis .
qed

subsection \<open>Indices into the parameter vectors\<close>

lemma astype_int32_range: "- (2 ^ 31) \<le> astype_int32 i \<and> astype_int32 i < 2 ^ 31"
proof -
  have "0 \<le> (i + 2 ^ 31) mod (2 ^ 32 :: int)" by (rule pos_mod_sign) simp
  moreover have "(i + 2 ^ 31) mod (2 ^ 32 :: int) < 2 ^ 32" by (rule pos_mod_bound) simp
  ultimately show ?thesis unfolding astype_int32_def by simp
qed

lemma set_idxs_encode:
  "set (map idxs (encode d)) = astype_int32 ` int ` {0..<length (classes (map drug d))}"
  by (simp add: idxs_encode set_fit_transform)

lemma datasize_card: "datasize d = card (set (map idxs d))"
  by (simp add: datasize_def length_remdups_card_conv)

lemma int_pow31: "int (2 ^ 31) = 2 ^ 31"
  by simp

lemma idxs_encode_in_bounds:
  assumes "i \<in> set (map idxs (encode d))"
  shows "in_bounds (datasize (encode d)) i"
proof (cases "length (classes (map drug d)) \<le> 2 ^ 31")
  case True
  let ?k = "length (classes (map drug d))"
  have k: "int ?k \<le> 2 ^ 31" using True by (simp only: of_nat_le_iff flip: int_pow31)
  obtain c where c: "c < ?k" and i: "i = astype_int32 (int c)"
    using assms unfolding set_idxs_encode by auto
  have "int c < 2 ^ 31" using c k by linarith
  then have "i = int c" unfolding i by (intro astype_int32_id) simp_all
  then show ?thesis using c by (simp add: in_bounds_def datasize_encode [OF True])
next
  case False
  let ?k = "length (classes (map drug d))"
  let ?W = "set (map idxs (encode d))"
  have "int ` {0..<2 ^ 31} \<subseteq> ?W"
  proof
    fix w assume "w \<in> int ` {0..<2 ^ 31}"
    then obtain c where c: "c < 2 ^ 31" and w: "w = int c" by auto
    have "int c < int (2 ^ 31)" using c by (simp only: of_nat_less_iff)
    then have "astype_int32 (int c) = int c" by (intro astype_int32_id) simp_all
    moreover have "c < ?k" using c False by linarith
    ultimately show "w \<in> ?W" unfolding set_idxs_encode w by force
  qed
  then have "card (int ` {0..<2 ^ 31}) \<le> card ?W" by (intro card_mono) simp_all
  then have "2 ^ 31 \<le> datasize (encode d)" by (simp add: datasize_card card_image)
  then have "int (2 ^ 31) \<le> int (datasize (encode d))" by (simp only: of_nat_le_iff)
  then have big: "2 ^ 31 \<le> int (datasize (encode d))" by simp
  obtain j where "i = astype_int32 j" using assms unfolding set_idxs_encode by auto
  then have "- (2 ^ 31) \<le> i" "i < 2 ^ 31" using astype_int32_range [of j] by simp_all
  then show ?thesis using big unfolding in_bounds_def by linarith
qed

lemma idxs_encode_nth:
  assumes "length (classes (map drug d)) \<le> 2 ^ 31" and "i < length d"
  shows "idxs (encode d ! i) = int (index_of (classes (map drug d)) (drug (d ! i)))"
proof -
  let ?k = "length (classes (map drug d))"
  let ?c = "index_of (classes (map drug d)) (drug (d ! i))"
  have k: "int ?k \<le> 2 ^ 31" using assms(1) by (simp only: of_nat_le_iff flip: int_pow31)
  have "drug (d ! i) \<in> set (classes (map drug d))" using assms(2) by (simp add: set_classes)
  then have "?c < ?k" by (rule index_of_less)
  then have "int ?c < 2 ^ 31" using k by linarith
  then have "astype_int32 (int ?c) = int ?c" by (intro astype_int32_id) simp_all
  moreover have "idxs (encode d ! i) = astype_int32 (int ?c)"
    using assms(2) by (simp add: encode_def fit_transform_def)
  ultimately show ?thesis by simp
qed

lemma length_encode: "length (encode d) = length d"
  by (simp add: encode_def fit_transform_def)

lemma getitem_ok: "0 \<le> i \<Longrightarrow> i < int (length v) \<Longrightarrow> getitem v i = Inr (v ! nat i)"
  by (simp add: getitem_def in_bounds_def)

lemma take_idxs_ok:
  "(\<And>i. i \<in> set is \<Longrightarrow> 0 \<le> i \<and> i < int (length v)) \<Longrightarrow>
   take_idxs v is = Inr (map (\<lambda>i. v ! nat i) is)"
proof (induction "is")
  case Nil
  then show ?case by simp
next
  case (Cons a "is")
  have "getitem v a = Inr (v ! nat a)" using Cons.prems [of a] by (intro getitem_ok) simp_all
  moreover have "take_idxs v is = Inr (map (\<lambda>i. v ! nat i) is)"
    using Cons.prems by (intro Cons.IH) simp
  ultimately show ?case by simp
qed

lemma datasize_encode_pos: "d \<noteq> [] \<Longrightarrow> datasize (encode d) \<noteq> 0"
proof -
  assume "d \<noteq> []"
  then have "length (encode d) \<noteq> 0" by (simp add: length_encode)
  then have "map idxs (encode d) \<noteq> []" by simp
  then have "remdups (map idxs (encode d)) \<noteq> []" by (simp only: remdups_eq_nil_iff not_False_eq_True)
  then show ?thesis by (simp add: datasize_def)
qed

lemma declare_model_encode_Nil: "declare_model (encode []) = Inl ValueError"
  by (simp add: declare_model_def datasize_def encode_def fit_transform_def)

lemma declare_model_encode:
  "declare_model (encode d) =
     Inr \<lparr>free_RVs =
            [\<lparr>rv_name = ''beta'', rv_dist = Normal 0 10000, rv_shape = datasize (encode d)\<rparr>,
             \<lparr>rv_name = ''noise'', rv_dist = HalfCauchy 10000, rv_shape = datasize (encode d)\<rparr>,
             \<lparr>rv_name = ''IC50'', rv_dist = Normal 0 10000, rv_shape = datasize (encode d)\<rparr>],
          deterministics = measurements_det (encode d),
          observed_RVs = y_like (encode d)\<rparr>"
  if "d \<noteq> []"
proof -
  have "list_all (in_bounds (datasize (encode d))) (map idxs (encode d))"
    unfolding list_all_iff using idxs_encode_in_bounds by blast
  then show ?thesis using datasize_encode_pos [OF that]
    by (simp add: declare_model_def pm_Normal_def pm_HalfCauchy_def)
qed

subsection \<open>Evaluating the declared model\<close>

lemma measurements_det_ok:
  assumes "\<And>r. r \<in> set d \<Longrightarrow> 0 \<le> idxs r \<and> idxs r < int n"
    and "length (beta \<theta>) = n" "length (IC50 \<theta>) = n"
  shows "measurements_det d \<theta> =
           Inr (map (\<lambda>r. beta \<theta> ! nat (idxs r) /
                          (1 + exp (concentrations r - IC50 \<theta> ! nat (idxs r)))) d)"
proof -
  have b: "take_idxs (beta \<theta>) (map idxs d) = Inr (map (\<lambda>i. beta \<theta> ! nat i) (map idxs d))"
    using assms(1,2) by (intro take_idxs_ok) auto
  have c: "take_idxs (IC50 \<theta>) (map idxs d) = Inr (map (\<lambda>i. IC50 \<theta> ! nat i) (map idxs d))"
    using assms(1,3) by (intro take_idxs_ok) auto
  show ?thesis
    unfolding measurements_det_def b c
    by (simp add: zip_map_map zip_same_conv_map)
qed

lemma y_like_ok:
  assumes "\<And>r. r \<in> set d \<Longrightarrow> 0 \<le> idxs r \<and> idxs r < int n"
    and "length (beta \<theta>) = n" "length (noise \<theta>) = n" "length (IC50 \<theta>) = n"
  shows "y_like d \<theta> =
           Inr (map (\<lambda>r. (Normal (beta \<theta> ! nat (idxs r) /
                                     (1 + exp (concentrations r - IC50 \<theta> ! nat (idxs r))))
                                  (noise \<theta> ! nat (idxs r)),
                           measurements r)) d)"
proof -
  have s: "take_idxs (noise \<theta>) (map idxs d) = Inr (map (\<lambda>i. noise \<theta> ! nat i) (map idxs d))"
    using assms(1,3) by (intro take_idxs_ok) auto
  have m: "measurements_det d \<theta> =
           Inr (map (\<lambda>r. beta \<theta> ! nat (idxs r) /
                          (1 + exp (concentrations r - IC50 \<theta> ! nat (idxs r)))) d)"
    using assms(1,2,4) by (rule measurements_det_ok)
  show ?thesis
    by (simp add: y_like_def m s zip_map_map zip_same_conv_map)
qed

lemma length_classes: "length (classes (map drug d)) = card (drug ` set d)"
  by (simp add: classes_def length_remdups_card_conv)

lemma isl_declare_model_encode: "isl (declare_model (encode d)) \<longleftrightarrow> d = []"
  by (cases "d = []") (simp_all add: declare_model_encode declare_model_encode_Nil)


lemma concentrations_encode: "map concentrations (encode d) = map concentrations d"
  by (rule nth_equalityI) (simp_all add: encode_def length_fit_transform)

section \<open>The claims\<close>

text \<open>
  Claim C1. Let the table carry dense zero-based indices and let the point \<open>\<theta>\<close> have
  the declared shapes. Then the model evaluates, and for every observation \<open>i\<close> with
  drug index \<open>g = idxs[i]\<close> the likelihood term is the normal distribution with mean
  \<open>beta\<^sub>g / (1 + exp (concentration\<^sub>i - ic50\<^sub>g))\<close> and standard deviation \<open>noise\<^sub>g\<close>,
  paired with the observed measurement of row \<open>i\<close>. The term of observation \<open>i\<close> is
  built from row \<open>i\<close> and the parameters alone, and every observation with the same
  drug index has the same standard deviation \<open>noise\<^sub>g\<close>.
\<close>

theorem y_like_observation:
  assumes "\<forall>r\<in>set d. 0 \<le> idxs r \<and> idxs r < int (datasize d)"
    and "length (beta \<theta>) = datasize d" "length (noise \<theta>) = datasize d"
        "length (IC50 \<theta>) = datasize d"
    and "i < length d"
  shows "\<exists>ms L. measurements_det d \<theta> = Inr ms \<and> y_like d \<theta> = Inr L \<and>
           length ms = length d \<and> length L = length d \<and>
           ms ! i = beta \<theta> ! nat (idxs (d ! i)) /
                      (1 + exp (concentrations (d ! i) - IC50 \<theta> ! nat (idxs (d ! i)))) \<and>
           L ! i = (Normal (ms ! i) (noise \<theta> ! nat (idxs (d ! i))), measurements (d ! i)) \<and>
           (\<forall>j<length d. idxs (d ! j) = idxs (d ! i) \<longrightarrow>
              fst (L ! j) = Normal (ms ! j) (noise \<theta> ! nat (idxs (d ! i))))"
proof -
  have r: "\<And>r. r \<in> set d \<Longrightarrow> 0 \<le> idxs r \<and> idxs r < int (datasize d)"
    using assms(1) by blast
  have m: "measurements_det d \<theta> =
           Inr (map (\<lambda>r. beta \<theta> ! nat (idxs r) /
                          (1 + exp (concentrations r - IC50 \<theta> ! nat (idxs r)))) d)"
    using r assms(2,4) by (rule measurements_det_ok)
  have l: "y_like d \<theta> =
           Inr (map (\<lambda>r. (Normal (beta \<theta> ! nat (idxs r) /
                                     (1 + exp (concentrations r - IC50 \<theta> ! nat (idxs r))))
                                  (noise \<theta> ! nat (idxs r)),
                           measurements r)) d)"
    using r assms(2,3,4) by (rule y_like_ok)
  show ?thesis
    unfolding m l using assms(5) by simp
qed

theorem y_like_observation_witness:
  "1 < length (encode [\<lparr>concentrations = 0, measurements = 1, drug = 0\<rparr>,
                       \<lparr>concentrations = 10, measurements = 1 / 4, drug = 2\<rparr>,
                       \<lparr>concentrations = 5, measurements = 1 / 2, drug = 0\<rparr>]) \<and>
   (\<exists>ms L.
      measurements_det
        (encode [\<lparr>concentrations = 0, measurements = 1, drug = 0\<rparr>,
                 \<lparr>concentrations = 10, measurements = 1 / 4, drug = 2\<rparr>,
                 \<lparr>concentrations = 5, measurements = 1 / 2, drug = 0\<rparr>])
        \<lparr>beta = [1, 2], noise = [3, 4], IC50 = [5, 6]\<rparr> = Inr ms \<and>
      y_like
        (encode [\<lparr>concentrations = 0, measurements = 1, drug = 0\<rparr>,
                 \<lparr>concentrations = 10, measurements = 1 / 4, drug = 2\<rparr>,
                 \<lparr>concentrations = 5, measurements = 1 / 2, drug = 0\<rparr>])
        \<lparr>beta = [1, 2], noise = [3, 4], IC50 = [5, 6]\<rparr> = Inr L \<and>
      ms ! 1 = 2 / (1 + exp (10 - 6)) \<and>
      L ! 1 = (Normal (ms ! 1) 4, 1 / 4))"
proof -
  let ?d0 = "[\<lparr>concentrations = 0, measurements = 1, drug = 0\<rparr>,
              \<lparr>concentrations = 10, measurements = 1 / 4, drug = 2\<rparr>,
              \<lparr>concentrations = 5, measurements = 1 / 2, drug = 0::real\<rparr>]"
  let ?\<theta> = "\<lparr>beta = [1, 2], noise = [3, 4], IC50 = [5, 6::real]\<rparr>"
  have e: "encode ?d0 =
             [\<lparr>concentrations = 0, measurements = 1, drug = 0, idxs = 0\<rparr>,
              \<lparr>concentrations = 10, measurements = 1 / 4, drug = 2, idxs = 1\<rparr>,
              \<lparr>concentrations = 5, measurements = 1 / 2, drug = 0, idxs = 0\<rparr>]"
    by (simp add: encode_def fit_transform_def classes_def astype_int32_def)
  have n: "datasize (encode ?d0) = 2" by (simp add: e datasize_def)
  have h1: "\<forall>r\<in>set (encode ?d0). 0 \<le> idxs r \<and> idxs r < int (datasize (encode ?d0))"
    by (simp add: n) (simp add: e)
  have h2: "length (beta ?\<theta>) = datasize (encode ?d0)" by (simp add: n)
  have h3: "length (noise ?\<theta>) = datasize (encode ?d0)" by (simp add: n)
  have h4: "length (IC50 ?\<theta>) = datasize (encode ?d0)" by (simp add: n)
  have h5: "1 < length (encode ?d0)" by (simp add: e)
  obtain ms L where m: "measurements_det (encode ?d0) ?\<theta> = Inr ms"
    and l: "y_like (encode ?d0) ?\<theta> = Inr L"
    and mi: "ms ! 1 = beta ?\<theta> ! nat (idxs (encode ?d0 ! 1)) /
               (1 + exp (concentrations (encode ?d0 ! 1) - IC50 ?\<theta> ! nat (idxs (encode ?d0 ! 1))))"
    and li: "L ! 1 = (Normal (ms ! 1) (noise ?\<theta> ! nat (idxs (encode ?d0 ! 1))),
                      measurements (encode ?d0 ! 1))"
    using y_like_observation [OF h1 h2 h3 h4 h5] by blast
  have mi': "ms ! 1 = 2 / (1 + exp (10 - 6))" using mi by (simp add: e)
  have li': "L ! 1 = (Normal (ms ! 1) 4, 1 / 4)" using li by (simp add: e)
  show ?thesis using h5 m l mi' li' by blast
qed

text \<open>
  Claim C2. The declaration places exactly three priors, one per parameter:
  \<open>beta\<close> normal with mean 0 and standard deviation \<open>100\<^sup>2\<close>, \<open>noise\<close> half-Cauchy with
  scale \<open>100\<^sup>2\<close>, and \<open>IC50\<close> normal with mean 0 and standard deviation \<open>100\<^sup>2\<close>. Their
  hyperparameters are constants (nothing is shared between drugs), and each is a vector
  with one component per distinct drug of the table. The half-Cauchy family, whose
  support is the non-negative reals, is the library's. The table has at least one row
  (on a table without rows the first prior would have shape 0, which PyMC3 rejects),
  and the bound on the number of distinct drugs is the range of the 32-bit index.
\<close>

theorem declare_model_priors:
  assumes "d0 \<noteq> []" and "length (classes (map drug d0)) \<le> 2 ^ 31"
  shows "\<exists>m. declare_model (encode d0) = Inr m \<and>
           free_RVs m =
             [\<lparr>rv_name = ''beta'', rv_dist = Normal 0 (100 ^ 2), rv_shape = card (drug ` set d0)\<rparr>,
              \<lparr>rv_name = ''noise'', rv_dist = HalfCauchy (100 ^ 2), rv_shape = card (drug ` set d0)\<rparr>,
              \<lparr>rv_name = ''IC50'', rv_dist = Normal 0 (100 ^ 2), rv_shape = card (drug ` set d0)\<rparr>]"
  by (simp add: declare_model_encode [OF assms(1)] datasize_encode [OF assms(2)] length_classes)

theorem declare_model_priors_witness:
  "[\<lparr>concentrations = 0, measurements = 1, drug = 0\<rparr>,
    \<lparr>concentrations = 10, measurements = 1 / 4, drug = 2\<rparr>,
    \<lparr>concentrations = 5, measurements = 1 / 2, drug = 0::real\<rparr>] \<noteq> [] \<and>
   length (classes (map drug [\<lparr>concentrations = 0, measurements = 1, drug = 0\<rparr>,
                              \<lparr>concentrations = 10, measurements = 1 / 4, drug = 2\<rparr>,
                              \<lparr>concentrations = 5, measurements = 1 / 2, drug = 0\<rparr>])) \<le> 2 ^ 31 \<and>
   (\<exists>m. declare_model (encode [\<lparr>concentrations = 0, measurements = 1, drug = 0\<rparr>,
                                 \<lparr>concentrations = 10, measurements = 1 / 4, drug = 2\<rparr>,
                                 \<lparr>concentrations = 5, measurements = 1 / 2, drug = 0\<rparr>]) = Inr m \<and>
        free_RVs m =
          [\<lparr>rv_name = ''beta'', rv_dist = Normal 0 10000, rv_shape = 2\<rparr>,
           \<lparr>rv_name = ''noise'', rv_dist = HalfCauchy 10000, rv_shape = 2\<rparr>,
           \<lparr>rv_name = ''IC50'', rv_dist = Normal 0 10000, rv_shape = 2\<rparr>])"
proof -
  let ?d0 = "[\<lparr>concentrations = 0, measurements = 1, drug = 0\<rparr>,
              \<lparr>concentrations = 10, measurements = 1 / 4, drug = 2\<rparr>,
              \<lparr>concentrations = 5, measurements = 1 / 2, drug = 0::real\<rparr>]"
  have c: "length (classes (map drug ?d0)) = 2" by (simp add: classes_def)
  have h: "length (classes (map drug ?d0)) \<le> 2 ^ 31" unfolding c by simp
  have k: "card (drug ` set ?d0) = 2" using c by (simp only: length_classes)
  have ne: "?d0 \<noteq> []" by simp
  have "\<exists>m. declare_model (encode ?d0) = Inr m \<and>
          free_RVs m =
            [\<lparr>rv_name = ''beta'', rv_dist = Normal 0 10000, rv_shape = 2\<rparr>,
             \<lparr>rv_name = ''noise'', rv_dist = HalfCauchy 10000, rv_shape = 2\<rparr>,
             \<lparr>rv_name = ''IC50'', rv_dist = Normal 0 10000, rv_shape = 2\<rparr>]"
    using declare_model_priors [OF ne h] unfolding k by simp
  then show ?thesis using ne h by blast
qed



text \<open>
  Claim C5. For every grid position \<open>j\<close> and drug \<open>g\<close>, the generator computes the
  noiseless response \<open>beta_true / (1 + exp (c - t\<^sub>g))\<close> at the concentration
  \<open>c = xs ! j\<close> and the true IC50 \<open>t\<^sub>g = ts ! g\<close>, and adds to it the noise of that cell:
  the cell's own standard normal variate \<open>z j g\<close>, shifted by \<open>0\<close> and scaled by the one
  standard deviation \<open>0.15\<close>, which depends on neither \<open>j\<close> nor \<open>g\<close>. The concentration
  and the true IC50 are entries of 64-bit integer arrays, and their difference is
  within the range of 64-bit integers, as it is throughout the notebook's grid.
\<close>

theorem y_noisy_cell:
  "j < length xs \<Longrightarrow> g < length ts \<Longrightarrow>
   in_int64 (xs ! j) \<Longrightarrow> in_int64 (ts ! g) \<Longrightarrow> in_int64 (xs ! j - ts ! g) \<Longrightarrow>
   y_true xs ts ! j ! g =
     real_of_int beta_true / (1 + exp (real_of_int (xs ! j) - real_of_int (ts ! g))) \<and>
   y_noisy xs ts z ! j ! g = y_true xs ts ! j ! g + (0 + 0.15 * z j g)"
  by (simp add: y_true_nth y_noisy_nth int64_id in_int64_def)

theorem y_noisy_cell_witness:
  "0 < length x_concs \<and> 0 < length ic50_true \<and>
   in_int64 (x_concs ! 0) \<and> in_int64 (ic50_true ! 0) \<and> in_int64 (x_concs ! 0 - ic50_true ! 0) \<and>
   y_true x_concs ic50_true ! 0 ! 0 = 1 / (1 + exp (- 42)) \<and>
   y_noisy x_concs ic50_true (\<lambda>j g. 2) ! 0 ! 0 = 1 / (1 + exp (- 42)) + 0.3"
  using y_noisy_cell [of 0 x_concs 0 ic50_true "\<lambda>j g. 2"]
  by (simp add: length_x_concs x_concs_0 ic50_true_def beta_true_def in_int64_def)

text \<open>
  Claim C6. Where the concentration of grid position \<open>j\<close> is the true IC50 of drug \<open>g\<close>,
  the noiseless response is \<open>beta_true / 2\<close>. The difference \<open>c - t\<^sub>g\<close> is taken on integer
  arrays, so it is exactly \<open>0\<close> there, in 64-bit arithmetic as well.
\<close>

theorem y_true_half_maximal:
  "j < length xs \<Longrightarrow> g < length ts \<Longrightarrow> xs ! j = ts ! g \<Longrightarrow>
   y_true xs ts ! j ! g = real_of_int beta_true / 2"
  by (simp add: y_true_nth int64_0)

theorem y_true_half_maximal_witness:
  "28 < length x_concs \<and> 0 < length ic50_true \<and> x_concs ! 28 = ic50_true ! 0 \<and>
   y_true x_concs ic50_true ! 28 ! 0 = 1 / 2"
  using y_true_half_maximal [of 28 x_concs 0 ic50_true]
  by (simp add: length_x_concs x_concs_28 ic50_true_def beta_true_def)

text \<open>
  Claim C7. Whatever noise is drawn, the table assembled from the notebook's grid and
  its three drugs has as many rows as grid points times drugs, that is 48 times 3 = 144.
  For each drug \<open>g\<close> and grid position \<open>j\<close>, the row at position \<open>g * 48 + j\<close> holds the
  \<open>j\<close>-th grid value, the measurement \<open>y_noisy[j, g]\<close> and the drug \<open>g\<close>. Every row is
  the row of some pair \<open>(g, j)\<close>, and distinct pairs have distinct positions: the rows
  and the pairs correspond one to one. (The grid repeats some values, so rows at
  distinct positions may hold the same concentration.)
\<close>

theorem data_observations:
  "\<exists>rows. data x_concs ic50_true z = Inr rows \<and>
      length rows = length x_concs * length ic50_true \<and> length rows = 144 \<and>
      (\<forall>g<3. \<forall>j<48.
         rows ! (g * 48 + j) =
           \<lparr>concentrations = real_of_int (x_concs ! j),
            measurements = y_noisy x_concs ic50_true z ! j ! g,
            drug = real g\<rparr>) \<and>
      (\<forall>r<length rows. \<exists>g<3. \<exists>j<48. r = g * 48 + j) \<and>
      (\<forall>g<3. \<forall>j<48. \<forall>g'<3. \<forall>j'<48.
         g * 48 + j = g' * 48 + j' \<longrightarrow> g = g' \<and> j = (j'::nat))"
proof -
  have ne: "ic50_true \<noteq> []" by (simp add: ic50_true_def)
  have k: "length ic50_true = 3" by (simp add: ic50_true_def)
  obtain rows where d: "data x_concs ic50_true z = Inr rows"
    and len: "length rows = length x_concs * length ic50_true"
    and nth: "\<forall>g<length ic50_true. \<forall>j<length x_concs.
              rows ! (g * length x_concs + j) =
                \<lparr>concentrations = real_of_int (x_concs ! j),
                 measurements = y_noisy x_concs ic50_true z ! j ! g,
                 drug = real g\<rparr>"
    using data_rows [OF ne, of x_concs z] by blast
  have len144: "length rows = 144" using len by (simp add: k length_x_concs)
  have nth': "\<forall>g<3. \<forall>j<48.
         rows ! (g * 48 + j) =
           \<lparr>concentrations = real_of_int (x_concs ! j),
            measurements = y_noisy x_concs ic50_true z ! j ! g,
            drug = real g\<rparr>"
    using nth by (simp only: k length_x_concs)
  have a: "\<forall>r<length rows. \<exists>g<3. \<exists>j<48. r = g * 48 + j"
  proof (intro allI impI)
    fix r :: nat assume "r < length rows"
    then have "r < 144" by (simp only: len144)
    then have "r div 48 < 3" "r mod 48 < 48" "r = r div 48 * 48 + r mod 48" by simp_all
    then show "\<exists>g<3. \<exists>j<48. r = g * 48 + j" by blast
  qed
  have b: "\<forall>g<3. \<forall>j<48. \<forall>g'<3. \<forall>j'<48.
         g * 48 + j = g' * 48 + j' \<longrightarrow> g = g' \<and> j = (j'::nat)"
    using block_index_inj by blast
  show ?thesis using d len len144 nth' a b by blast
qed

theorem data_observations_witness:
  "\<exists>rows. data x_concs ic50_true (\<lambda>j g. 0) = Inr rows \<and> length rows = 144 \<and>
      (1::nat) < 3 \<and> (2::nat) < 48 \<and>
      rows ! 50 = \<lparr>concentrations = 20, measurements = 1 / (1 + exp 7), drug = 1\<rparr>"
proof -
  obtain rows where d: "data x_concs ic50_true (\<lambda>j g. 0) = Inr rows"
    and len: "length rows = 144"
    and nth: "\<forall>g<3. \<forall>j<48.
         rows ! (g * 48 + j) =
           \<lparr>concentrations = real_of_int (x_concs ! j),
            measurements = y_noisy x_concs ic50_true (\<lambda>j g. 0) ! j ! g,
            drug = real g\<rparr>"
    using data_observations [of "\<lambda>j g. 0"] by blast
  have g: "(1::nat) < 3" and j: "(2::nat) < 48" by simp_all
  have "rows ! (1 * 48 + 2) =
           \<lparr>concentrations = real_of_int (x_concs ! 2),
            measurements = y_noisy x_concs ic50_true (\<lambda>j g. 0) ! 2 ! 1,
            drug = real 1\<rparr>"
    using nth [rule_format, OF g j] .
  moreover have "y_noisy x_concs ic50_true (\<lambda>j g. 0) ! 2 ! 1 = 1 / (1 + exp 7)"
    by (simp add: y_noisy_nth y_true_nth length_x_concs x_concs_2 ic50_true_def beta_true_def
          int64_7)
  ultimately have "rows ! 50 = \<lparr>concentrations = 20, measurements = 1 / (1 + exp 7), drug = 1\<rparr>"
    by (simp add: x_concs_2)
  then show ?thesis using d len by simp
qed

text \<open>
  Claim C8. The sampler is called with 10000 draws, the Metropolis step method and the
  maximum a posteriori point of the model as the start. The trace plot and the summary
  are each given the trace without its first 5000 draws. When the sampler returns as
  many draws as requested, the trace has 10000 draws and both consumers receive the
  last 5000 of them, in order.
\<close>

theorem inference_invocation:
  "trace pm_sample pm_find_MAP m =
     pm_sample \<lparr>draws = 10000, step = Metropolis, start = pm_find_MAP m\<rparr> m \<and>
   traceplot_cell pm_traceplot t = pm_traceplot (drop 5000 t) \<and>
   summary_cell pm_summary t = pm_summary (drop 5000 t) \<and>
   ((\<forall>c m'. length (pm_sample c m') = draws c) \<longrightarrow>
      length (trace pm_sample pm_find_MAP m) = 10000 \<and>
      length (drop 5000 (trace pm_sample pm_find_MAP m)) = 5000 \<and>
      (\<forall>i<5000. drop 5000 (trace pm_sample pm_find_MAP m) ! i =
                  trace pm_sample pm_find_MAP m ! (5000 + i)))"
  by (simp add: trace_def traceplot_cell_def summary_cell_def)

theorem inference_invocation_witness:
  "length (trace (\<lambda>c m. replicate (draws c) (start c)) (\<lambda>m. \<lparr>beta = [1], noise = [1], IC50 = [42]\<rparr>)
             \<lparr>free_RVs = [], deterministics = (\<lambda>\<theta>. Inr []), observed_RVs = (\<lambda>\<theta>. Inr [])\<rparr>) = 10000 \<and>
   traceplot_cell length
     (trace (\<lambda>c m. replicate (draws c) (start c)) (\<lambda>m. \<lparr>beta = [1], noise = [1], IC50 = [42]\<rparr>)
        \<lparr>free_RVs = [], deterministics = (\<lambda>\<theta>. Inr []), observed_RVs = (\<lambda>\<theta>. Inr [])\<rparr>) = 5000 \<and>
   summary_cell length
     (trace (\<lambda>c m. replicate (draws c) (start c)) (\<lambda>m. \<lparr>beta = [1], noise = [1], IC50 = [42]\<rparr>)
        \<lparr>free_RVs = [], deterministics = (\<lambda>\<theta>. Inr []), observed_RVs = (\<lambda>\<theta>. Inr [])\<rparr>) = 5000"
proof -
  let ?S = "\<lambda>(c::sample_call) (m::model). replicate (draws c) (start c)"
  let ?F = "\<lambda>m::model. \<lparr>beta = [1], noise = [1], IC50 = [42::real]\<rparr>"
  let ?m = "\<lparr>free_RVs = [], deterministics = (\<lambda>\<theta>. Inr []), observed_RVs = (\<lambda>\<theta>. Inr [])\<rparr>"
  have h: "\<forall>c m'. length (?S c m') = draws c" by simp
  note t = inference_invocation [of ?S ?F ?m length "trace ?S ?F ?m" length]
  from t h have a: "length (trace ?S ?F ?m) = 10000"
    and b: "length (drop 5000 (trace ?S ?F ?m)) = 5000" by blast+
  from t have "traceplot_cell length (trace ?S ?F ?m) = length (drop 5000 (trace ?S ?F ?m))"
    and "summary_cell length (trace ?S ?F ?m) = length (drop 5000 (trace ?S ?F ?m))" by blast+
  then show ?thesis using a b by simp
qed

text \<open>
  Claim C9 says that a table with a negative concentration is rejected. Nothing in the
  notebook inspects the concentrations: the model is declared on a table whose
  concentration is \<open>- 5\<close>.
\<close>

theorem declare_model_negative_concentration_counterexample:
  "concentrations \<lparr>concentrations = - 5, measurements = 1, drug = 0\<rparr> < 0 \<and>
   \<not> isl (declare_model (encode [\<lparr>concentrations = - 5, measurements = 1, drug = 0\<rparr>]))"
  by (simp add: isl_declare_model_encode)

text \<open>
  Claim C9, as amended. No input is rejected for its concentrations. Whatever the grid
  values, negative, zero or positive, the table is assembled (for at least one drug);
  encoding leaves the concentrations as given; and the model is declared on every table
  that has at least one row: the declaration fails on the table without rows and on no
  other, whatever the concentrations.
\<close>

theorem declare_model_any_concentration:
  "(ts \<noteq> [] \<longrightarrow> \<not> isl (data xs ts z)) \<and>
   map concentrations (encode d0) = map concentrations d0 \<and>
   (isl (declare_model (encode d0)) \<longleftrightarrow> d0 = [])"
  using data_rows [of ts xs z]
  by (auto simp: concentrations_encode isl_declare_model_encode)

theorem declare_model_any_concentration_witness:
  "[42] \<noteq> ([] :: int list) \<and> \<not> isl (data [- 5, 0] [42] (\<lambda>j g. 0)) \<and>
   map concentrations (encode [\<lparr>concentrations = - 5, measurements = 1, drug = 0\<rparr>,
                               \<lparr>concentrations = 0, measurements = 1, drug = 0\<rparr>]) = [- 5, 0] \<and>
   \<not> isl (declare_model (encode [\<lparr>concentrations = - 5, measurements = 1, drug = 0\<rparr>,
                                   \<lparr>concentrations = 0, measurements = 1, drug = 0\<rparr>]))"
  using declare_model_any_concentration
          [of "[42]" "[- 5, 0]" "\<lambda>j g. 0"
              "[\<lparr>concentrations = - 5, measurements = 1, drug = 0\<rparr>,
                \<lparr>concentrations = 0, measurements = 1, drug = 0\<rparr>]"]
  by simp

text \<open>
  Claim C10. The three parameter vectors are declared with the shape \<open>datasize\<close>, the
  number of distinct indices in the table. For every observation \<open>i\<close> of an encoded
  table the index \<open>idxs[i]\<close> is within the bounds of a vector of that shape, so the
  lookup does not raise. When the distinct drugs number at most \<open>2\<^sup>3\<^sup>1\<close> (the cast to
  32 bits then changes no index), \<open>datasize\<close> is the number of distinct drugs and the
  index is the position of the observation's drug among the sorted classes, in the
  dense range from \<open>0\<close> to \<open>datasize - 1\<close>.
\<close>

theorem idxs_lookup_in_bounds:
  assumes "i < length d0"
  shows "map rv_shape (free_RVs (projr (declare_model (encode d0)))) =
           [datasize (encode d0), datasize (encode d0), datasize (encode d0)] \<and>
         in_bounds (datasize (encode d0)) (idxs (encode d0 ! i)) \<and>
         (\<forall>v::real list. length v = datasize (encode d0) \<longrightarrow>
            \<not> isl (getitem v (idxs (encode d0 ! i)))) \<and>
         (length (classes (map drug d0)) \<le> 2 ^ 31 \<longrightarrow>
            datasize (encode d0) = card (drug ` set d0) \<and>
            idxs (encode d0 ! i) = int (index_of (classes (map drug d0)) (drug (d0 ! i))) \<and>
            0 \<le> idxs (encode d0 ! i) \<and> idxs (encode d0 ! i) < int (datasize (encode d0)))"
proof -
  have "encode d0 ! i \<in> set (encode d0)" using assms by (simp add: length_encode)
  then have "idxs (encode d0 ! i) \<in> set (map idxs (encode d0))" by simp
  then have b: "in_bounds (datasize (encode d0)) (idxs (encode d0 ! i))"
    by (rule idxs_encode_in_bounds)
  then have g: "\<forall>v::real list. length v = datasize (encode d0) \<longrightarrow>
            \<not> isl (getitem v (idxs (encode d0 ! i)))"
    by (simp add: getitem_def)
  have ne: "d0 \<noteq> []" using assms by auto
  have s: "map rv_shape (free_RVs (projr (declare_model (encode d0)))) =
           [datasize (encode d0), datasize (encode d0), datasize (encode d0)]"
    by (simp add: declare_model_encode [OF ne])
  have d: "datasize (encode d0) = card (drug ` set d0) \<and>
            idxs (encode d0 ! i) = int (index_of (classes (map drug d0)) (drug (d0 ! i))) \<and>
            0 \<le> idxs (encode d0 ! i) \<and> idxs (encode d0 ! i) < int (datasize (encode d0))"
    if k: "length (classes (map drug d0)) \<le> 2 ^ 31"
  proof -
    have n: "datasize (encode d0) = length (classes (map drug d0))"
      using k by (rule datasize_encode)
    have e: "idxs (encode d0 ! i) = int (index_of (classes (map drug d0)) (drug (d0 ! i)))"
      using k assms by (rule idxs_encode_nth)
    have "drug (d0 ! i) \<in> set (classes (map drug d0))" using assms by (simp add: set_classes)
    then have "index_of (classes (map drug d0)) (drug (d0 ! i)) < length (classes (map drug d0))"
      by (rule index_of_less)
    then show ?thesis using n e by (simp add: length_classes)
  qed
  show ?thesis using s b g d by blast
qed

theorem idxs_lookup_in_bounds_witness:
  "1 < length [\<lparr>concentrations = 0, measurements = 1, drug = 0\<rparr>,
               \<lparr>concentrations = 10, measurements = 1 / 4, drug = 2\<rparr>,
               \<lparr>concentrations = 5, measurements = 1 / 2, drug = 0\<rparr>] \<and>
   length (classes (map drug [\<lparr>concentrations = 0, measurements = 1, drug = 0\<rparr>,
                              \<lparr>concentrations = 10, measurements = 1 / 4, drug = 2\<rparr>,
                              \<lparr>concentrations = 5, measurements = 1 / 2, drug = 0\<rparr>])) \<le> 2 ^ 31 \<and>
   datasize (encode [\<lparr>concentrations = 0, measurements = 1, drug = 0\<rparr>,
                     \<lparr>concentrations = 10, measurements = 1 / 4, drug = 2\<rparr>,
                     \<lparr>concentrations = 5, measurements = 1 / 2, drug = 0\<rparr>]) = 2 \<and>
   idxs (encode [\<lparr>concentrations = 0, measurements = 1, drug = 0\<rparr>,
                 \<lparr>concentrations = 10, measurements = 1 / 4, drug = 2\<rparr>,
                 \<lparr>concentrations = 5, measurements = 1 / 2, drug = 0\<rparr>] ! 1) = 1 \<and>
   \<not> isl (getitem [7, 8 :: real]
            (idxs (encode [\<lparr>concentrations = 0, measurements = 1, drug = 0\<rparr>,
                           \<lparr>concentrations = 10, measurements = 1 / 4, drug = 2\<rparr>,
                           \<lparr>concentrations = 5, measurements = 1 / 2, drug = 0\<rparr>] ! 1)))"
proof -
  let ?d0 = "[\<lparr>concentrations = 0, measurements = 1, drug = 0\<rparr>,
              \<lparr>concentrations = 10, measurements = 1 / 4, drug = 2\<rparr>,
              \<lparr>concentrations = 5, measurements = 1 / 2, drug = 0::real\<rparr>]"
  have i: "1 < length ?d0" by simp
  have c: "length (classes (map drug ?d0)) = 2" by (simp add: classes_def)
  have h: "length (classes (map drug ?d0)) \<le> 2 ^ 31" unfolding c by simp
  have k: "card (drug ` set ?d0) = 2" using c by (simp only: length_classes)
  have x: "index_of (classes (map drug ?d0)) (drug (?d0 ! 1)) = 1" by (simp add: classes_def)
  note t = idxs_lookup_in_bounds [OF i]
  from t h have n: "datasize (encode ?d0) = 2" unfolding k by blast
  from t h have e: "idxs (encode ?d0 ! 1) = 1" unfolding x by simp
  have l: "length [7, 8 :: real] = datasize (encode ?d0)" by (simp add: n)
  from t l have "\<not> isl (getitem [7, 8 :: real] (idxs (encode ?d0 ! 1)))" by blast
  then show ?thesis using i h n e by blast
qed

end
